theory Spec2Isabelle
  imports Main
begin

section \<open>Python values and text helpers\<close>

text \<open>
  Python strings are modelled as HOL strings whose characters are the code points below 256
  (Latin-1). The fixed texts of log messages, subjects and templates are written in ASCII:
  their emoji and accents are dropped, their interpolated values are not rendered into log
  messages. Whitespace, letter and digit classes follow \<^verbatim>\<open>str.isspace\<close>,
  \<^verbatim>\<open>str.isalpha\<close> and \<^verbatim>\<open>str.isdigit\<close> on that range.
\<close>

datatype exn = ValueError | IndexError | RepositoryError | SMTPException | OSError

definition py_isspace :: "char \<Rightarrow> bool" where
  "py_isspace c =
     (let n = (of_char c :: nat)
      in (9 \<le> n \<and> n \<le> 13) \<or> (28 \<le> n \<and> n \<le> 32) \<or> n = 133 \<or> n = 160)"



definition is_decimal :: "char \<Rightarrow> bool" where
  "is_decimal c = (let n = (of_char c :: nat) in 48 \<le> n \<and> n \<le> 57)"

definition strip :: "string \<Rightarrow> string" where
  "strip s = rev (dropWhile py_isspace (rev (dropWhile py_isspace s)))"




definition digit_chr :: "nat \<Rightarrow> char" where
  "digit_chr d = char_of (48 + d)"

function str_nat :: "nat \<Rightarrow> string" where
  "str_nat n = (if n < 10 then [digit_chr n] else str_nat (n div 10) @ [digit_chr (n mod 10)])"
  by pat_completeness auto
termination
  by (relation "measure id") auto

definition str_int :: "int \<Rightarrow> string" where
  "str_int i = (if i < 0 then CHR ''-'' # str_nat (nat (- i)) else str_nat (nat i))"

text \<open>
  \<^verbatim>\<open>int(s)\<close> on a string: surrounding whitespace is stripped, one sign is allowed, and
  the rest is groups of decimal digits separated by single underscores. Anything else raises
  ValueError.
\<close>

fun split_chr :: "char \<Rightarrow> string \<Rightarrow> string list" where
  "split_chr c [] = [[]]"
| "split_chr c (x # xs) =
     (if x = c then [] # split_chr c xs
      else (case split_chr c xs of [] \<Rightarrow> [[x]] | g # gs \<Rightarrow> (x # g) # gs))"

definition digits_value :: "string \<Rightarrow> int" where
  "digits_value ds = foldl (\<lambda>acc c. 10 * acc + (int (of_char c) - 48)) 0 ds"

definition py_int :: "string \<Rightarrow> exn + int" where
  "py_int s =
     (let t = strip s;
          neg = (t \<noteq> [] \<and> hd t = CHR ''-'');
          body = (if t \<noteq> [] \<and> (hd t = CHR ''-'' \<or> hd t = CHR ''+'') then tl t else t);
          groups = split_chr CHR ''_'' body
      in if list_all (\<lambda>g. g \<noteq> [] \<and> list_all is_decimal g) groups
         then Inr ((if neg then - 1 else 1) * digits_value (concat groups))
         else Inl ValueError)"

definition truthy :: "string option \<Rightarrow> bool" where
  "truthy v = (case v of None \<Rightarrow> False | Some s \<Rightarrow> s \<noteq> [])"

definition falsy :: "string option \<Rightarrow> bool" where
  "falsy v = (case v of None \<Rightarrow> True | Some s \<Rightarrow> s = [])"

definition str_opt :: "string option \<Rightarrow> string" where
  "str_opt v = (case v of None \<Rightarrow> ''None'' | Some s \<Rightarrow> s)"

section \<open>Effects: a trace of events, exceptions as values\<close>

text \<open>
  A computation returns its value or the exception it raised, together with the events it
  produced in order. \<open>Log\<close> is a call of the logger, \<open>Print\<close> a line on the console, the
  \<open>Smtp\<close> events are the operations on the mail transport, and \<open>Call\<close> marks the entry into
  a method of the service or of a repository, so that calls can be counted.
  \<open>exn\<close> stands for the subclasses of Python's \<^verbatim>\<open>Exception\<close>, which is what the guards
  of the service catch. Exceptions come from the collaborators (a repository call, the mail
  transport) and from \<^verbatim>\<open>int()\<close>; a logger call and \<^verbatim>\<open>print\<close> do not raise.
\<close>

datatype level = INFO | WARNING | ERROR

datatype html_doc = Html string "string list"

record mime_message =
  msg_subject :: string
  msg_from :: "string option"
  msg_to :: string
  msg_parts :: "(string \<times> (string + html_doc)) list"

datatype event =
    Log level string
  | Print string
  | Call string
  | SmtpConnect string int
  | SmtpStartTls
  | SmtpLogin string string
  | SmtpSendMessage mime_message

type_synonym 'a comp = "(exn + 'a) \<times> event list"

definition ret :: "'a \<Rightarrow> 'a comp" where
  "ret x = (Inr x, [])"

definition lift :: "exn + 'a \<Rightarrow> 'a comp" where
  "lift r = (r, [])"

definition bind :: "'a comp \<Rightarrow> ('a \<Rightarrow> 'b comp) \<Rightarrow> 'b comp" where
  "bind m f =
     (case m of
        (Inl e, t) \<Rightarrow> (Inl e, t)
      | (Inr x, t) \<Rightarrow> (case f x of (r, t') \<Rightarrow> (r, t @ t')))"

definition seq :: "unit comp \<Rightarrow> 'b comp \<Rightarrow> 'b comp" where
  "seq m k = bind m (\<lambda>_. k)"

definition emit :: "event \<Rightarrow> unit comp" where
  "emit ev = (Inr (), [ev])"

definition logger :: "level \<Rightarrow> string \<Rightarrow> unit comp" where
  "logger lvl msg = emit (Log lvl msg)"

definition py_print :: "string \<Rightarrow> unit comp" where
  "py_print s = emit (Print s)"

text \<open>\<^verbatim>\<open>try: m except Exception as e: h e\<close>\<close>

definition try_except :: "'a comp \<Rightarrow> (exn \<Rightarrow> 'a comp) \<Rightarrow> 'a comp" where
  "try_except m h =
     (case m of
        (Inl e, t) \<Rightarrow> (case h e of (r, t') \<Rightarrow> (r, t @ t'))
      | (Inr x, t) \<Rightarrow> (Inr x, t))"

definition fault :: "exn option \<Rightarrow> unit comp" where
  "fault f = (case f of None \<Rightarrow> ret () | Some e \<Rightarrow> lift (Inl e))"

definition count_calls :: "string \<Rightarrow> event list \<Rightarrow> nat" where
  "count_calls name t = length (filter (\<lambda>ev. ev = Call name) t)"

fun is_smtp :: "event \<Rightarrow> bool" where
  "is_smtp (SmtpConnect s p) = True"
| "is_smtp SmtpStartTls = True"
| "is_smtp (SmtpLogin u p) = True"
| "is_smtp (SmtpSendMessage m) = True"
| "is_smtp ev = False"

fun is_log :: "event \<Rightarrow> bool" where
  "is_log (Log l m) = True"
| "is_log ev = False"

text \<open>A computation returns when its result is a value and not a raised exception.\<close>

definition returns :: "'a comp \<Rightarrow> bool" where
  "returns m = (case fst m of Inl e \<Rightarrow> False | Inr x \<Rightarrow> True)"

section \<open>The notification service: data and collaborators\<close>

text \<open>
  The repositories, the environment, the clock, the logo file and the mail transport are
  outside the service; they are the fields of \<open>world\<close>. A repository call may raise.
  \<open>usuario\<close> is the ORM object of \<^verbatim>\<open>UsuarioRepository\<close>; \<open>incapacidad_row\<close> is the
  dict of \<^verbatim>\<open>IncapacidadRepository.get\<close> with the keys the service reads: \<open>usuario_id\<close>
  is read by subscript, the others by \<^verbatim>\<open>.get\<close>, where \<open>None\<close> is an absent key. A date
  value is represented by the text its \<^verbatim>\<open>isoformat()\<close> returns. A lookup that finds
  nothing returns \<open>None\<close>. \<open>usuario_repo_list skip limit\<close> is the listing that
  \<^verbatim>\<open>usuario_repo.list(skip=..., limit=...)\<close> returns. \<open>load_logo_base64\<close> is what
  \<^verbatim>\<open>_load_logo_base64\<close> returns: it reads the logo file under its own guard and gives
  \<open>None\<close> on any failure.
\<close>

record usuario =
  id_usuario :: int
  nombre_completo :: string
  correo_electronico :: string
  rol_id :: int
  estado :: bool

record incapacidad_row =
  usuario_id :: int
  tipo_incapacidad_id :: "int option"
  clase :: "string option"
  fecha_inicio :: "string option"
  fecha_final :: "string option"
  dias :: "int option"
  eps_afiliado :: "string option"
  servicio :: "string option"
  diagnostico :: "string option"

record world =
  incapacidad_repo_get :: "int \<Rightarrow> exn + incapacidad_row option"
  usuario_repo_get :: "int \<Rightarrow> exn + usuario option"
  usuario_repo_list :: "nat \<Rightarrow> nat \<Rightarrow> exn + usuario list"
  getenv :: "string \<Rightarrow> string option"
  datetime_now :: string
  load_logo_base64 :: "string option"
  smtp_connect :: "string \<Rightarrow> int \<Rightarrow> exn option"
  smtp_starttls :: "exn option"
  smtp_login :: "string \<Rightarrow> string \<Rightarrow> exn option"
  smtp_send_message :: "mime_message \<Rightarrow> exn option"

text \<open>The dicts the service builds: an administrator entry and the notification payload.\<close>

record admin_dict =
  ad_id :: int
  ad_nombre :: string
  ad_email :: string

record empleado_info =
  emp_id :: int
  emp_nombre :: string
  emp_email :: string

record administrador_info =
  adm_id :: int
  adm_nombre :: string

record incapacidad_info =
  inc_tipo_id :: "int option"
  inc_clase :: "string option"
  inc_fecha_inicio :: "string option"
  inc_fecha_final :: "string option"
  inc_dias :: int
  inc_eps :: "string option"
  inc_servicio :: "string option"
  inc_diagnostico :: "string option"

record notification_data =
  nd_tipo :: string
  nd_incapacidad_id :: int
  nd_empleado :: empleado_info
  nd_administrador :: "administrador_info option"
  nd_incapacidad :: "incapacidad_info option"
  nd_motivo_rechazo :: "string option"
  nd_fecha_notificacion :: "string option"
  nd_fecha_revision :: "string option"
  nd_fecha_rechazo :: "string option"

definition getenv_default :: "world \<Rightarrow> string \<Rightarrow> string \<Rightarrow> string" where
  "getenv_default w name d = (case getenv w name of None \<Rightarrow> d | Some v \<Rightarrow> v)"

definition get_default :: "'a option \<Rightarrow> 'a \<Rightarrow> 'a" where
  "get_default v d = (case v of None \<Rightarrow> d | Some x \<Rightarrow> x)"

section \<open>The notification service: operations\<close>

text \<open>\<^verbatim>\<open>_format_date\<close>, on the isoformat text or None that the payload carries.\<close>

definition format_date :: "string option \<Rightarrow> string" where
  "format_date v =
     (if falsy v then ''N/A''
      else takeWhile (\<lambda>c. c \<noteq> CHR '' '') (takeWhile (\<lambda>c. c \<noteq> CHR ''T'') (the v)))"

definition get_primary_color :: string where
  "get_primary_color = ''#dc2626''"

text \<open>
  \<^verbatim>\<open>_get_administradores\<close>: the loop over the listing appends a dict for each user with
  \<^verbatim>\<open>rol_id == 10 and estado\<close>; an exception gives the empty list.
\<close>

definition admin_of :: "usuario \<Rightarrow> admin_dict" where
  "admin_of usuario =
     \<lparr>ad_id = id_usuario usuario, ad_nombre = nombre_completo usuario,
      ad_email = correo_electronico usuario\<rparr>"

fun administradores_loop :: "usuario list \<Rightarrow> admin_dict list \<Rightarrow> admin_dict list" where
  "administradores_loop [] administradores = administradores"
| "administradores_loop (usuario # usuarios) administradores =
     (if rol_id usuario = 10 \<and> estado usuario
      then administradores_loop usuarios (administradores @ [admin_of usuario])
      else administradores_loop usuarios administradores)"

definition get_administradores :: "world \<Rightarrow> admin_dict list comp" where
  "get_administradores w =
     try_except
       (seq (emit (Call ''usuario_repo.list''))
         (bind (lift (usuario_repo_list w 0 1000)) (\<lambda>usuarios.
            ret (administradores_loop usuarios []))))
       (\<lambda>e. seq (logger ERROR ''Error al obtener administradores'') (ret []))"

text \<open>
  \<^verbatim>\<open>_send_email\<close>. The port is parsed before the credentials are looked at. The
  \<^verbatim>\<open>with smtplib.SMTP(...)\<close> block is \<open>smtp_session\<close>: each of its four operations is an
  event and may raise.
\<close>

definition smtp_session :: "world \<Rightarrow> string \<Rightarrow> int \<Rightarrow> string \<Rightarrow> string \<Rightarrow> mime_message \<Rightarrow> unit comp" where
  "smtp_session w smtp_server smtp_port smtp_username smtp_password msg =
     seq (emit (SmtpConnect smtp_server smtp_port))
    (seq (fault (smtp_connect w smtp_server smtp_port))
    (seq (emit SmtpStartTls)
    (seq (fault (smtp_starttls w))
    (seq (emit (SmtpLogin smtp_username smtp_password))
    (seq (fault (smtp_login w smtp_username smtp_password))
    (seq (emit (SmtpSendMessage msg))
         (fault (smtp_send_message w msg))))))))"

definition send_email :: "world \<Rightarrow> string \<Rightarrow> string \<Rightarrow> html_doc \<Rightarrow> string option \<Rightarrow> bool comp" where
  "send_email w to_email subject html_content text_content =
     seq (emit (Call ''_send_email''))
     (try_except
       (let smtp_server = getenv_default w ''SMTP_SERVER'' ''smtp.gmail.com'' in
        bind (lift (py_int (getenv_default w ''SMTP_PORT'' ''587''))) (\<lambda>smtp_port.
          let smtp_username = getenv w ''SMTP_USERNAME'';
              smtp_password = getenv w ''SMTP_PASSWORD'';
              from_email = (case getenv w ''FROM_EMAIL'' of None \<Rightarrow> smtp_username | Some v \<Rightarrow> Some v)
          in if falsy smtp_username \<or> falsy smtp_password
             then seq (logger WARNING ''CONFIGURACION SMTP NO ENCONTRADA'')
                 (seq (logger WARNING ''Simulando envio a'')
                 (seq (logger INFO ''Asunto'')
                 (seq (logger INFO ''Contenido'')
                 (seq (logger WARNING ''Para habilitar envio real, configure las variables SMTP en .env'')
                      (ret True)))))
             else
               let msg = \<lparr>msg_subject = subject, msg_from = from_email, msg_to = to_email,
                          msg_parts = (if truthy text_content then [(''plain'', Inl (the text_content))] else [])
                                      @ [(''html'', Inr html_content)]\<rparr>
               in seq (smtp_session w smtp_server smtp_port (the smtp_username) (the smtp_password) msg)
                 (seq (logger INFO ''Correo enviado exitosamente a'')
                      (ret True))))
       (\<lambda>e. seq (logger ERROR ''Error al enviar correo a'') (ret False)))"

text \<open>
  The two templates. The HTML text is represented by the name of its template and the values
  interpolated into it, in order.
\<close>

definition create_admin_new_incapacity_email_content ::
  "world \<Rightarrow> notification_data \<Rightarrow> (string \<times> html_doc) comp" where
  "create_admin_new_incapacity_email_content w notification_data =
     seq (emit (Call ''_create_admin_new_incapacity_email_content''))
     (let empleado = nd_empleado notification_data;
          incapacidad = nd_incapacidad notification_data;
          subject = ''Nueva incapacidad - '' @ emp_nombre empleado;
          panel_url = getenv_default w ''ADMIN_PANEL_URL'' [];
          primary = get_primary_color;
          cta_html = (if panel_url \<noteq> [] then [panel_url, primary] else []);
          logo_b64 = load_logo_base64 w;
          logo_html = (if truthy logo_b64 then [the logo_b64] else []);
          fecha_inicio_fmt = format_date (case incapacidad of None \<Rightarrow> None | Some i \<Rightarrow> inc_fecha_inicio i);
          fecha_fin_fmt = format_date (case incapacidad of None \<Rightarrow> None | Some i \<Rightarrow> inc_fecha_final i);
          dias_txt = (case incapacidad of None \<Rightarrow> ''N/A'' | Some i \<Rightarrow> str_int (inc_dias i))
      in ret (subject,
              Html ''nueva_incapacidad''
                ([primary, primary] @ logo_html
                 @ [emp_nombre empleado, emp_email empleado, fecha_inicio_fmt, fecha_fin_fmt, dias_txt]
                 @ cta_html)))"

definition create_rejection_email_content :: "notification_data \<Rightarrow> (string \<times> html_doc) comp" where
  "create_rejection_email_content notification_data =
     seq (emit (Call ''_create_rejection_email_content''))
     (let empleado = nd_empleado notification_data;
          administrador = nd_administrador notification_data;
          incapacidad = nd_incapacidad notification_data;
          motivo_rechazo = get_default (nd_motivo_rechazo notification_data) ''No especificado'';
          nombre_empleado = emp_nombre empleado;
          nombre_admin = (case administrador of None \<Rightarrow> ''Administrador'' | Some a \<Rightarrow> adm_nombre a);
          asunto = ''Incapacidad Rechazada - '' @ nombre_empleado
      in ret (asunto,
              Html ''incapacidad_rechazada''
                [nombre_empleado,
                 str_int (nd_incapacidad_id notification_data),
                 (case incapacidad of None \<Rightarrow> ''N/A'' | Some i \<Rightarrow> str_opt (inc_fecha_inicio i)),
                 (case incapacidad of None \<Rightarrow> ''N/A'' | Some i \<Rightarrow> str_opt (inc_fecha_final i)),
                 (case incapacidad of None \<Rightarrow> ''N/A'' | Some i \<Rightarrow> str_int (inc_dias i)),
                 motivo_rechazo,
                 nombre_admin,
                 get_default (nd_fecha_rechazo notification_data) ''N/A'']))"

text \<open>
  \<^verbatim>\<open>_send_notification_to_admin\<close>: builds the admin email and hands it to \<open>send_email\<close>.
  \<open>admin_text_content\<close> is the f-string of its plain-text part.
\<close>

definition admin_text_content :: "notification_data \<Rightarrow> string" where
  "admin_text_content notification_data =
     (let incapacidad = nd_incapacidad notification_data in
      ''Nueva incapacidad registrada por '' @ emp_nombre (nd_empleado notification_data)
      @ '' ('' @ emp_email (nd_empleado notification_data) @ '').'' @ [CHR 0x0A]
      @ ''Fecha inicio: ''
      @ format_date (case incapacidad of None \<Rightarrow> None | Some i \<Rightarrow> inc_fecha_inicio i) @ [CHR 0x0A]
      @ ''Fecha fin: ''
      @ format_date (case incapacidad of None \<Rightarrow> None | Some i \<Rightarrow> inc_fecha_final i) @ [CHR 0x0A]
      @ ''Dias: ''
      @ (case incapacidad of None \<Rightarrow> ''N/A'' | Some i \<Rightarrow> str_int (inc_dias i)) @ [CHR 0x0A])"

definition send_notification_to_admin :: "world \<Rightarrow> admin_dict \<Rightarrow> notification_data \<Rightarrow> bool comp" where
  "send_notification_to_admin w admin notification_data =
     seq (emit (Call ''_send_notification_to_admin''))
     (try_except
       (bind (create_admin_new_incapacity_email_content w notification_data) (\<lambda>(subject, html_content).
          let text_content = admin_text_content notification_data
          in send_email w (ad_email admin) subject html_content (Some text_content)))
       (\<lambda>e. seq (logger ERROR ''Error al enviar notificacion a admin'') (ret False)))"

text \<open>The methods entered by one call of \<open>send_notification_to_admin\<close>.\<close>

definition admin_send_calls :: "string set" where
  "admin_send_calls =
     {''_send_notification_to_admin'', ''_create_admin_new_incapacity_email_content'', ''_send_email''}"

definition rejection_text_content :: "string \<Rightarrow> string" where
  "rejection_text_content motivo = ''Incapacidad rechazada. Motivo: '' @ motivo"

text \<open>
  \<^verbatim>\<open>_send_notification_to_employee\<close>: only the payload of type
  \<^verbatim>\<open>incapacidad_rechazada\<close> builds an email and calls \<open>send_email\<close>; the other two
  branches log and fall through to \<^verbatim>\<open>return True\<close>.
\<close>

definition send_notification_to_employee :: "world \<Rightarrow> usuario \<Rightarrow> notification_data \<Rightarrow> bool comp" where
  "send_notification_to_employee w empleado notification_data =
     seq (emit (Call ''_send_notification_to_employee''))
     (try_except
       (let tipo_notificacion = nd_tipo notification_data in
        if tipo_notificacion = ''incapacidad_rechazada'' then
          (let motivo = get_default (nd_motivo_rechazo notification_data) ''No especificado'' in
             seq (logger INFO ''ENVIANDO NOTIFICACION DE RECHAZO:'')
            (seq (logger INFO ''Para'')
            (seq (logger INFO ''Empleado'')
            (seq (logger INFO ''Incapacidad ID'')
            (seq (logger INFO ''Motivo del rechazo'')
            (seq (logger INFO ''Rechazado por'')
            (seq (logger INFO ''Fecha'')
            (bind (create_rejection_email_content notification_data) (\<lambda>(asunto, html_content).
               let text_content = rejection_text_content motivo in
               bind (send_email w (correo_electronico empleado) asunto html_content (Some text_content))
                 (\<lambda>email_success.
                    seq (if email_success
                         then logger INFO ''Correo de rechazo enviado exitosamente a''
                         else logger ERROR ''Error al enviar correo de rechazo a'')
                        (ret email_success)))))))))))
        else
          seq (if tipo_notificacion = ''incapacidad_revisada'' then
                 seq (logger INFO ''NOTIFICACION DE REVISION ENVIADA:'')
                (seq (logger INFO ''Para'')
                (seq (logger INFO ''Empleado'')
                (seq (logger INFO ''Incapacidad ID'')
                (seq (logger INFO ''Revisado por'')
                     (logger INFO ''Fecha'')))))
               else
                 seq (logger INFO ''NOTIFICACION GENERAL ENVIADA:'')
                (seq (logger INFO ''Para'')
                (seq (logger INFO ''Empleado'')
                     (logger INFO ''Tipo''))))
         (seq (logger INFO ''Datos completos'')
              (ret True)))
       (\<lambda>e. seq (logger ERROR ''Error al enviar notificacion a empleado'') (ret False)))"

text \<open>
  The public methods. Every repository lookup is marked by a \<open>Call\<close> event. The payload
  dicts are built by the three \<open>_data\<close> functions.
\<close>

definition repo_call :: "string \<Rightarrow> exn + 'a \<Rightarrow> 'a comp" where
  "repo_call name r = seq (emit (Call name)) (lift r)"

definition empleado_info_of :: "usuario \<Rightarrow> empleado_info" where
  "empleado_info_of empleado =
     \<lparr>emp_id = id_usuario empleado, emp_nombre = nombre_completo empleado,
      emp_email = correo_electronico empleado\<rparr>"

definition administrador_info_of :: "usuario \<Rightarrow> administrador_info" where
  "administrador_info_of admin = \<lparr>adm_id = id_usuario admin, adm_nombre = nombre_completo admin\<rparr>"

definition new_incapacity_data :: "world \<Rightarrow> int \<Rightarrow> usuario \<Rightarrow> incapacidad_row \<Rightarrow> notification_data" where
  "new_incapacity_data w incapacidad_id empleado incapacidad =
     \<lparr>nd_tipo = ''nueva_incapacidad'',
      nd_incapacidad_id = incapacidad_id,
      nd_empleado = empleado_info_of empleado,
      nd_administrador = None,
      nd_incapacidad = Some
        \<lparr>inc_tipo_id = tipo_incapacidad_id incapacidad,
         inc_clase = Some (get_default (clase incapacidad) ''incapacidad''),
         inc_fecha_inicio = fecha_inicio incapacidad,
         inc_fecha_final = fecha_final incapacidad,
         inc_dias = get_default (dias incapacidad) 0,
         inc_eps = Some (get_default (eps_afiliado incapacidad) ''N/A''),
         inc_servicio = Some (get_default (servicio incapacidad) ''N/A''),
         inc_diagnostico = Some (get_default (diagnostico incapacidad) ''N/A'')\<rparr>,
      nd_motivo_rechazo = None,
      nd_fecha_notificacion = Some (datetime_now w),
      nd_fecha_revision = None,
      nd_fecha_rechazo = None\<rparr>"

definition reviewed_data :: "world \<Rightarrow> int \<Rightarrow> usuario \<Rightarrow> usuario \<Rightarrow> notification_data" where
  "reviewed_data w incapacidad_id empleado admin =
     \<lparr>nd_tipo = ''incapacidad_revisada'',
      nd_incapacidad_id = incapacidad_id,
      nd_empleado = empleado_info_of empleado,
      nd_administrador = Some (administrador_info_of admin),
      nd_incapacidad = None,
      nd_motivo_rechazo = None,
      nd_fecha_notificacion = None,
      nd_fecha_revision = Some (datetime_now w),
      nd_fecha_rechazo = None\<rparr>"

definition rejected_data ::
  "world \<Rightarrow> int \<Rightarrow> usuario \<Rightarrow> usuario \<Rightarrow> incapacidad_row \<Rightarrow> string option \<Rightarrow> notification_data" where
  "rejected_data w incapacidad_id empleado admin incapacidad motivo_rechazo =
     \<lparr>nd_tipo = ''incapacidad_rechazada'',
      nd_incapacidad_id = incapacidad_id,
      nd_empleado = empleado_info_of empleado,
      nd_administrador = Some (administrador_info_of admin),
      nd_incapacidad = Some
        \<lparr>inc_tipo_id = tipo_incapacidad_id incapacidad,
         inc_clase = None,
         inc_fecha_inicio = fecha_inicio incapacidad,
         inc_fecha_final = fecha_final incapacidad,
         inc_dias = get_default (dias incapacidad) 0,
         inc_eps = None,
         inc_servicio = None,
         inc_diagnostico = None\<rparr>,
      nd_motivo_rechazo = Some (if truthy motivo_rechazo then the motivo_rechazo else ''No especificado''),
      nd_fecha_notificacion = None,
      nd_fecha_revision = None,
      nd_fecha_rechazo = Some (datetime_now w)\<rparr>"

text \<open>The \<^verbatim>\<open>for admin in administradores\<close> loop of \<^verbatim>\<open>notify_new_incapacity\<close>.\<close>

fun send_loop :: "world \<Rightarrow> admin_dict list \<Rightarrow> notification_data \<Rightarrow> nat \<Rightarrow> nat comp" where
  "send_loop w [] notification_data success_count = ret success_count"
| "send_loop w (admin # administradores) notification_data success_count =
     seq (logger INFO ''Intentando enviar notificacion a admin'')
    (seq (py_print ''Enviando a'')
    (bind (send_notification_to_admin w admin notification_data) (\<lambda>sent.
       if sent
       then seq (logger INFO ''Envio exitoso a'')
           (seq (py_print ''Enviado a'')
                (send_loop w administradores notification_data (success_count + 1)))
       else seq (logger ERROR ''Error al enviar a'')
           (seq (py_print ''Error al enviar a'')
                (send_loop w administradores notification_data success_count)))))"

definition notify_new_incapacity :: "world \<Rightarrow> int \<Rightarrow> bool comp" where
  "notify_new_incapacity w incapacidad_id =
     try_except
       (bind (repo_call ''incapacidad_repo.get'' (incapacidad_repo_get w incapacidad_id)) (\<lambda>incapacidad_opt.
          case incapacidad_opt of
            None \<Rightarrow>
              seq (logger ERROR ''Incapacidad no encontrada para notificacion'')
             (seq (py_print ''Notificacion: incapacidad no encontrada'')
                  (ret False))
          | Some incapacidad \<Rightarrow>
              bind (repo_call ''usuario_repo.get'' (usuario_repo_get w (usuario_id incapacidad))) (\<lambda>empleado_opt.
                case empleado_opt of
                  None \<Rightarrow>
                    seq (logger ERROR ''Empleado no encontrado para notificacion'')
                        (ret False)
                | Some empleado \<Rightarrow>
                    bind (get_administradores w) (\<lambda>administradores.
                      if administradores = [] then
                        seq (logger WARNING ''No se encontraron administradores para notificar'')
                       (seq (py_print ''Notificacion: no se encontraron administradores (rol_id=10, estado=True)'')
                            (ret False))
                      else
                        seq (logger INFO ''Administradores detectados para notificacion'')
                       (seq (py_print ''Admins detectados'')
                       (seq (py_print ''SMTP en runtime'')
                       (let notification_data = new_incapacity_data w incapacidad_id empleado incapacidad in
                        bind (send_loop w administradores notification_data 0) (\<lambda>success_count.
                          seq (logger INFO ''Notificacion enviada a administradores'')
                         (seq (py_print ''Resultado notificacion admins'')
                              (ret (success_count > 0)))))))))))
       (\<lambda>e. seq (logger ERROR ''Error al enviar notificacion de incapacidad'') (ret False))"

definition notify_admins_new_incapacity :: "world \<Rightarrow> int \<Rightarrow> int \<Rightarrow> bool comp" where
  "notify_admins_new_incapacity w incapacidad_id empleado_id =
     seq (logger INFO ''Notificando a administradores sobre nueva incapacidad'')
         (notify_new_incapacity w incapacidad_id)"

definition notify_incapacity_reviewed :: "world \<Rightarrow> int \<Rightarrow> int \<Rightarrow> bool comp" where
  "notify_incapacity_reviewed w incapacidad_id admin_id =
     try_except
       (bind (repo_call ''incapacidad_repo.get'' (incapacidad_repo_get w incapacidad_id)) (\<lambda>incapacidad_opt.
          case incapacidad_opt of
            None \<Rightarrow> ret False
          | Some incapacidad \<Rightarrow>
              bind (repo_call ''usuario_repo.get'' (usuario_repo_get w (usuario_id incapacidad))) (\<lambda>empleado_opt.
                case empleado_opt of
                  None \<Rightarrow> ret False
                | Some empleado \<Rightarrow>
                    bind (repo_call ''usuario_repo.get'' (usuario_repo_get w admin_id)) (\<lambda>admin_opt.
                      case admin_opt of
                        None \<Rightarrow> ret False
                      | Some admin \<Rightarrow>
                          send_notification_to_employee w empleado
                            (reviewed_data w incapacidad_id empleado admin)))))
       (\<lambda>e. seq (logger ERROR ''Error al enviar notificacion de revision'') (ret False))"

definition notify_incapacity_rejected :: "world \<Rightarrow> int \<Rightarrow> int \<Rightarrow> string option \<Rightarrow> bool comp" where
  "notify_incapacity_rejected w incapacidad_id admin_id motivo_rechazo =
     try_except
       (bind (repo_call ''incapacidad_repo.get'' (incapacidad_repo_get w incapacidad_id)) (\<lambda>incapacidad_opt.
          case incapacidad_opt of
            None \<Rightarrow>
              seq (logger ERROR ''Incapacidad no encontrada para notificacion de rechazo'')
                  (ret False)
          | Some incapacidad \<Rightarrow>
              bind (repo_call ''usuario_repo.get'' (usuario_repo_get w (usuario_id incapacidad))) (\<lambda>empleado_opt.
                case empleado_opt of
                  None \<Rightarrow>
                    seq (logger ERROR ''Empleado no encontrado para notificacion de rechazo'')
                        (ret False)
                | Some empleado \<Rightarrow>
                    seq (logger INFO ''NOTIFICACION DE RECHAZO - Datos del empleado:'')
                   (seq (logger INFO ''ID'')
                   (seq (logger INFO ''Email'')
                   (seq (logger INFO ''Nombre'')
                   (bind (repo_call ''usuario_repo.get'' (usuario_repo_get w admin_id)) (\<lambda>admin_opt.
                      case admin_opt of
                        None \<Rightarrow>
                          seq (logger ERROR ''Administrador no encontrado para notificacion de rechazo'')
                              (ret False)
                      | Some admin \<Rightarrow>
                          bind (send_notification_to_employee w empleado
                                  (rejected_data w incapacidad_id empleado admin incapacidad motivo_rechazo))
                            (\<lambda>success.
                               seq (if success
                                    then logger INFO ''Notificacion de rechazo enviada al empleado''
                                    else logger ERROR ''Error al enviar notificacion de rechazo al empleado'')
                                   (ret success))))))))))
       (\<lambda>e. seq (logger ERROR ''Error al enviar notificacion de rechazo'') (ret False))"

definition get_notification_history :: "world \<Rightarrow> int \<Rightarrow> int \<Rightarrow> int \<Rightarrow> notification_data list comp" where
  "get_notification_history w user_id skip limit = ret []"

definition mark_notification_as_read :: "world \<Rightarrow> int \<Rightarrow> int \<Rightarrow> bool comp" where
  "mark_notification_as_read w notification_id user_id = ret True"

section \<open>The SQL regeneration script\<close>






















section \<open>Example inputs\<close>

text \<open>
  A repository with one incapacity record (id 1, of employee 5), the employee, one active
  administrator (id 9) and one inactive user of role 10; no environment variable is set and
  the mail transport accepts everything.
\<close>

definition ana :: usuario where
  "ana = \<lparr>id_usuario = 5, nombre_completo = ''Ana'', correo_electronico = ''ana@example.org'',
          rol_id = 1, estado = True\<rparr>"

definition berta :: usuario where
  "berta = \<lparr>id_usuario = 9, nombre_completo = ''Berta'', correo_electronico = ''berta@example.org'',
            rol_id = 10, estado = True\<rparr>"

definition carlos :: usuario where
  "carlos = \<lparr>id_usuario = 10, nombre_completo = ''Carlos'', correo_electronico = ''carlos@example.org'',
             rol_id = 10, estado = False\<rparr>"

definition row1 :: incapacidad_row where
  "row1 = \<lparr>usuario_id = 5, tipo_incapacidad_id = Some 2, clase = None,
           fecha_inicio = Some ''2024-01-02T00:00:00'', fecha_final = None, dias = Some 3,
           eps_afiliado = None, servicio = None, diagnostico = None\<rparr>"

definition example_world :: world where
  "example_world =
     \<lparr>incapacidad_repo_get = (\<lambda>i. if i = 1 then Inr (Some row1) else Inr None),
      usuario_repo_get = (\<lambda>i. if i = 5 then Inr (Some ana) else if i = 9 then Inr (Some berta) else Inr None),
      usuario_repo_list = (\<lambda>skip limit. Inr [ana, berta, carlos]),
      getenv = (\<lambda>name. None),
      datetime_now = ''2024-02-01T12:00:00'',
      load_logo_base64 = None,
      smtp_connect = (\<lambda>server port. None),
      smtp_starttls = None,
      smtp_login = (\<lambda>username password. None),
      smtp_send_message = (\<lambda>msg. None)\<rparr>"

text \<open>The same world with every SMTP variable present and blank, as a blank \<^verbatim>\<open>.env\<close> gives.\<close>

definition blank_smtp_env :: "string \<Rightarrow> string option" where
  "blank_smtp_env name =
     (if name = ''SMTP_SERVER'' \<or> name = ''SMTP_PORT'' \<or> name = ''SMTP_USERNAME''
         \<or> name = ''SMTP_PASSWORD''
      then Some [] else None)"

definition blank_smtp_world :: world where
  "blank_smtp_world = example_world\<lparr>getenv := blank_smtp_env\<rparr>"


section \<open>Properties of the effect combinators\<close>

lemma seq_emit: "seq (emit ev) k = (fst k, ev # snd k)"
  by (simp add: seq_def bind_def emit_def split: prod.splits)

lemma seq_logger: "seq (logger lvl msg) k = (fst k, Log lvl msg # snd k)"
  by (simp add: logger_def seq_emit)

lemma seq_py_print: "seq (py_print s) k = (fst k, Print s # snd k)"
  by (simp add: py_print_def seq_emit)

lemma bind_Inr: "fst m = Inr x \<Longrightarrow> bind m f = (fst (f x), snd m @ snd (f x))"
  by (cases m) (simp add: bind_def split: prod.splits)

lemma bind_Inl: "fst m = Inl e \<Longrightarrow> bind m f = (Inl e, snd m)"
  by (cases m) (simp add: bind_def)

lemma bind_lift_Inr: "bind (lift (Inr x)) f = f x"
  by (simp add: bind_def lift_def split: prod.splits)

lemma bind_lift_Inl: "bind (lift (Inl e)) f = (Inl e, [])"
  by (simp add: bind_def lift_def)

lemma try_except_Inr: "fst m = Inr x \<Longrightarrow> try_except m h = m"
  by (cases m) (simp add: try_except_def)

lemma try_except_Inl: "fst m = Inl e \<Longrightarrow> try_except m h = (fst (h e), snd m @ snd (h e))"
  by (cases m) (simp add: try_except_def split: prod.splits)

lemma repo_call_Inr: "bind (repo_call name (Inr x)) f = (fst (f x), Call name # snd (f x))"
  by (simp add: repo_call_def seq_emit bind_Inr lift_def)

lemma repo_call_Inl: "bind (repo_call name (Inl e)) f = (Inl e, [Call name])"
  by (simp add: repo_call_def seq_emit bind_Inl lift_def)

lemma returns_iff: "returns m \<longleftrightarrow> (\<exists>x. fst m = Inr x)"
  by (cases "fst m") (simp_all add: returns_def)

lemma returns_ret: "returns (ret x)"
  by (simp add: returns_def ret_def)


lemma returns_seq_logger: "returns (seq (logger l s) k) = returns k"
  by (simp add: seq_logger returns_def)

lemma returns_try_except: "(\<And>e. returns (h e)) \<Longrightarrow> returns (try_except m h)"
  by (cases "fst m") (simp_all add: returns_def try_except_Inr try_except_Inl)

lemma returns_bind: "returns m \<Longrightarrow> (\<And>x. returns (f x)) \<Longrightarrow> returns (bind m f)"
  by (cases "fst m") (simp_all add: returns_def bind_Inr bind_Inl)

lemma all_ret: "list_all P (snd (ret x))"
  by (simp add: ret_def)

lemma all_lift: "list_all P (snd (lift r))"
  by (simp add: lift_def)

lemma all_emit: "P ev \<Longrightarrow> list_all P (snd (emit ev))"
  by (simp add: emit_def)

lemma all_logger: "P (Log l s) \<Longrightarrow> list_all P (snd (logger l s))"
  by (simp add: logger_def emit_def)

lemma all_py_print: "P (Print s) \<Longrightarrow> list_all P (snd (py_print s))"
  by (simp add: py_print_def emit_def)

lemma all_fault: "list_all P (snd (fault f))"
  by (cases f) (simp_all add: fault_def ret_def lift_def)

lemma all_bind:
  "list_all P (snd m) \<Longrightarrow> (\<And>x. list_all P (snd (f x))) \<Longrightarrow> list_all P (snd (bind m f))"
  by (cases "fst m") (simp_all add: bind_Inr bind_Inl)

lemma all_seq: "list_all P (snd m) \<Longrightarrow> list_all P (snd k) \<Longrightarrow> list_all P (snd (seq m k))"
  by (simp add: seq_def all_bind)

lemma all_try_except:
  "list_all P (snd m) \<Longrightarrow> (\<And>e. list_all P (snd (h e))) \<Longrightarrow> list_all P (snd (try_except m h))"
  by (cases "fst m") (simp_all add: try_except_Inr try_except_Inl)

lemmas all_intros = all_ret all_lift all_emit all_logger all_py_print all_fault all_bind all_seq all_try_except

section \<open>The administrator list\<close>


lemma get_administradores_Inr:
  "usuario_repo_list w 0 1000 = Inr usuarios \<Longrightarrow>
   get_administradores w = (Inr (administradores_loop usuarios []), [Call ''usuario_repo.list''])"
  by (simp add: get_administradores_def seq_emit bind_lift_Inr ret_def try_except_def)

lemma get_administradores_Inl:
  "usuario_repo_list w 0 1000 = Inl e \<Longrightarrow>
   get_administradores w
     = (Inr [], [Call ''usuario_repo.list'', Log ERROR ''Error al obtener administradores''])"
  by (simp add: get_administradores_def seq_emit seq_logger bind_lift_Inl ret_def try_except_def)



section \<open>Sending: the shape of the traces\<close>

lemma smtp_session_events: "list_all is_smtp (snd (smtp_session w s p u pw msg))"
  unfolding smtp_session_def by (intro all_intros) simp_all

lemma guard_shape:
  assumes "list_all P (snd body)" and "P (Log ERROR msg)"
  shows "\<exists>b t. seq (emit c) (try_except body (\<lambda>e. seq (logger ERROR msg) (ret False))) = (Inr b, c # t)
           \<and> list_all P t"
proof -
  let ?X = "try_except body (\<lambda>e. seq (logger ERROR msg) (ret False))"
  have "returns ?X"
    by (intro returns_try_except) (simp add: returns_seq_logger returns_ret)
  moreover have "list_all P (snd ?X)"
    using assms by (intro all_intros) simp_all
  ultimately show ?thesis
    by (auto simp add: seq_emit returns_iff)
qed

lemma send_email_shape:
  "\<exists>b t. send_email w to_email subject html_content text_content = (Inr b, Call ''_send_email'' # t)
      \<and> list_all (\<lambda>ev. is_smtp ev \<or> is_log ev) t"
proof -
  let ?P = "\<lambda>ev. is_smtp ev \<or> is_log ev"
  have s: "list_all ?P (snd (smtp_session w s p u pw msg))" for s p u pw msg
    using smtp_session_events [of w s p u pw msg] by (simp add: list_all_iff)
  show ?thesis
    unfolding send_email_def
    by (rule guard_shape) (auto simp add: Let_def intro!: all_intros s)
qed


lemma count_calls_simps:
  "count_calls name [] = 0"
  "count_calls name (Call n # t) = (if n = name then 1 else 0) + count_calls name t"
  "count_calls name (Log l s # t) = count_calls name t"
  "count_calls name (Print s # t) = count_calls name t"
  "count_calls name (t1 @ t2) = count_calls name t1 + count_calls name t2"
  by (auto simp add: count_calls_def)

lemma count_calls_smtp_log:
  "list_all (\<lambda>ev. is_smtp ev \<or> is_log ev) t \<Longrightarrow> count_calls name t = 0"
  by (induction t) (auto simp add: count_calls_def)

lemma create_admin_content:
  "\<exists>content. create_admin_new_incapacity_email_content w nd
      = (Inr content, [Call ''_create_admin_new_incapacity_email_content''])"
  by (simp add: create_admin_new_incapacity_email_content_def seq_emit ret_def Let_def)

lemma send_notification_to_admin_shape:
  "\<exists>b t. send_notification_to_admin w admin nd
       = (Inr b, [Call ''_send_notification_to_admin'',
                  Call ''_create_admin_new_incapacity_email_content'',
                  Call ''_send_email''] @ t)
     \<and> list_all (\<lambda>ev. is_smtp ev \<or> is_log ev) t"
proof -
  obtain content where c: "create_admin_new_incapacity_email_content w nd
      = (Inr content, [Call ''_create_admin_new_incapacity_email_content''])"
    using create_admin_content by blast
  obtain subject html_content where p: "content = (subject, html_content)"
    by (cases content)
  let ?tx = "Some (admin_text_content nd)"
  obtain b t where e: "send_email w (ad_email admin) subject html_content ?tx = (Inr b, Call ''_send_email'' # t)"
    and t: "list_all (\<lambda>ev. is_smtp ev \<or> is_log ev) t"
    using send_email_shape by blast
  have "send_notification_to_admin w admin nd
       = (Inr b, [Call ''_send_notification_to_admin'',
                  Call ''_create_admin_new_incapacity_email_content'',
                  Call ''_send_email''] @ t)"
    by (simp add: send_notification_to_admin_def seq_emit c p e bind_Inr try_except_Inr Let_def)
  with t show ?thesis by blast
qed

lemma send_notification_to_admin_counts:
  "\<exists>b t. send_notification_to_admin w admin nd = (Inr b, t)
     \<and> (\<forall>name. count_calls name t = (if name \<in> admin_send_calls then 1 else 0))"
proof -
  obtain b t where "send_notification_to_admin w admin nd
       = (Inr b, [Call ''_send_notification_to_admin'',
                  Call ''_create_admin_new_incapacity_email_content'',
                  Call ''_send_email''] @ t)"
     and "list_all (\<lambda>ev. is_smtp ev \<or> is_log ev) t"
    using send_notification_to_admin_shape by blast
  then show ?thesis
    by (auto simp add: count_calls_simps count_calls_smtp_log admin_send_calls_def)
qed

lemma send_loop_spec:
  "\<exists>t. send_loop w administradores nd c
       = (Inr (c + length (filter (\<lambda>a. fst (send_notification_to_admin w a nd) = Inr True) administradores)), t)
     \<and> (\<forall>name. count_calls name t = (if name \<in> admin_send_calls then length administradores else 0))"
proof (induction administradores arbitrary: c)
  case Nil
  show ?case by (simp add: ret_def count_calls_simps)
next
  case (Cons admin administradores)
  obtain b t where s: "send_notification_to_admin w admin nd = (Inr b, t)"
     and n: "\<And>name. count_calls name t = (if name \<in> admin_send_calls then 1 else 0)"
    using send_notification_to_admin_counts by blast
  show ?case
  proof (cases b)
    case True
    obtain t' where "send_loop w administradores nd (c + 1)
       = (Inr (c + 1 + length (filter (\<lambda>a. fst (send_notification_to_admin w a nd) = Inr True) administradores)), t')"
     and "\<And>name. count_calls name t' = (if name \<in> admin_send_calls then length administradores else 0)"
      using Cons.IH [of "c + 1"] by blast
    with s n True show ?thesis
      by (simp add: seq_logger seq_py_print bind_Inr count_calls_simps)
  next
    case False
    obtain t' where "send_loop w administradores nd c
       = (Inr (c + length (filter (\<lambda>a. fst (send_notification_to_admin w a nd) = Inr True) administradores)), t')"
     and "\<And>name. count_calls name t' = (if name \<in> admin_send_calls then length administradores else 0)"
      using Cons.IH [of c] by blast
    with s n False show ?thesis
      by (simp add: seq_logger seq_py_print bind_Inr count_calls_simps)
  qed
qed

lemma get_administradores_shape:
  "\<exists>administradores t. get_administradores w = (Inr administradores, Call ''usuario_repo.list'' # t)
     \<and> list_all (\<lambda>ev. is_smtp ev \<or> is_log ev) t"
proof (cases "usuario_repo_list w 0 1000")
  case (Inl e)
  then show ?thesis by (simp add: get_administradores_Inl)
next
  case (Inr usuarios)
  then show ?thesis by (simp add: get_administradores_Inr)
qed

lemma notify_new_incapacity_success_path:
  assumes "incapacidad_repo_get w incapacidad_id = Inr (Some incapacidad)"
    and "usuario_repo_get w (usuario_id incapacidad) = Inr (Some empleado)"
    and "fst (get_administradores w) = Inr administradores"
    and "administradores \<noteq> []"
  shows "\<exists>t. notify_new_incapacity w incapacidad_id
     = (Inr (0 < length (filter (\<lambda>a. fst (send_notification_to_admin w a
                (new_incapacity_data w incapacidad_id empleado incapacidad)) = Inr True) administradores)), t)
     \<and> count_calls ''incapacidad_repo.get'' t = 1
     \<and> count_calls ''usuario_repo.get'' t = 1
     \<and> count_calls ''usuario_repo.list'' t = 1
     \<and> count_calls ''_send_notification_to_admin'' t = length administradores
     \<and> count_calls ''_create_admin_new_incapacity_email_content'' t = length administradores
     \<and> count_calls ''_send_email'' t = length administradores"
proof -
  let ?nd = "new_incapacity_data w incapacidad_id empleado incapacidad"
  obtain ta where a: "get_administradores w = (Inr administradores, Call ''usuario_repo.list'' # ta)"
    and ta: "list_all (\<lambda>ev. is_smtp ev \<or> is_log ev) ta"
    using get_administradores_shape [of w] assms(3) by auto
  obtain tl where l: "send_loop w administradores ?nd 0
       = (Inr (0 + length (filter (\<lambda>a. fst (send_notification_to_admin w a ?nd) = Inr True) administradores)), tl)"
     and n: "\<And>name. count_calls name tl = (if name \<in> admin_send_calls then length administradores else 0)"
    using send_loop_spec [of w administradores ?nd 0] by blast
  show ?thesis
    using assms(1,2,4) ta
    by (simp add: notify_new_incapacity_def repo_call_Inr a l bind_Inr seq_logger seq_py_print
        try_except_Inr ret_def count_calls_simps count_calls_smtp_log n admin_send_calls_def)
qed

section \<open>The public methods\<close>

text \<open>
  C10. \<^verbatim>\<open>get_notification_history\<close> returns the empty list and
  \<^verbatim>\<open>mark_notification_as_read\<close> returns True, for all arguments, without raising and
  without producing any event.
\<close>

theorem history_empty_and_mark_read_True:
  "get_notification_history w user_id skip limit = (Inr [], [])
   \<and> mark_notification_as_read w notification_id user_id = (Inr True, [])"
  by (simp add: get_notification_history_def mark_notification_as_read_def ret_def)

text \<open>
  C9. \<^verbatim>\<open>notify_admins_new_incapacity(incapacidad_id, empleado_id)\<close> returns what
  \<^verbatim>\<open>notify_new_incapacity(incapacidad_id)\<close> returns, whatever \<open>empleado_id\<close> is.
\<close>

theorem notify_admins_new_incapacity_alias:
  "fst (notify_admins_new_incapacity w incapacidad_id empleado_id)
     = fst (notify_new_incapacity w incapacidad_id)"
  by (simp add: notify_admins_new_incapacity_def seq_logger)

lemma missing_admin_returns_False:
  assumes "usuario_repo_get w admin_id = Inr None"
  shows "fst (notify_incapacity_reviewed w incapacidad_id admin_id) = Inr False"
    and "fst (notify_incapacity_rejected w incapacidad_id admin_id motivo_rechazo) = Inr False"
proof -
  note defs = notify_incapacity_reviewed_def notify_incapacity_rejected_def
    repo_call_Inr repo_call_Inl seq_logger ret_def try_except_def
  show "fst (notify_incapacity_reviewed w incapacidad_id admin_id) = Inr False"
  proof (cases "incapacidad_repo_get w incapacidad_id")
    case (Inl e)
    then show ?thesis by (simp add: defs)
  next
    case (Inr incapacidad_opt)
    show ?thesis
    proof (cases incapacidad_opt)
      case None
      with Inr show ?thesis by (simp add: defs)
    next
      case (Some incapacidad)
      show ?thesis
      proof (cases "usuario_repo_get w (usuario_id incapacidad)")
        case (Inl e)
        with Inr Some show ?thesis by (simp add: defs)
      next
        case e: (Inr empleado_opt)
        with Inr Some assms show ?thesis by (cases empleado_opt) (simp_all add: defs)
      qed
    qed
  qed
  show "fst (notify_incapacity_rejected w incapacidad_id admin_id motivo_rechazo) = Inr False"
  proof (cases "incapacidad_repo_get w incapacidad_id")
    case (Inl e)
    then show ?thesis by (simp add: defs)
  next
    case (Inr incapacidad_opt)
    show ?thesis
    proof (cases incapacidad_opt)
      case None
      with Inr show ?thesis by (simp add: defs)
    next
      case (Some incapacidad)
      show ?thesis
      proof (cases "usuario_repo_get w (usuario_id incapacidad)")
        case (Inl e)
        with Inr Some show ?thesis by (simp add: defs)
      next
        case e: (Inr empleado_opt)
        with Inr Some assms show ?thesis by (cases empleado_opt) (simp_all add: defs)
      qed
    qed
  qed
qed

lemma missing_record_or_employee_returns_False:
  assumes "incapacidad_repo_get w incapacidad_id = Inr None
     \<or> (\<exists>incapacidad. incapacidad_repo_get w incapacidad_id = Inr (Some incapacidad)
            \<and> usuario_repo_get w (usuario_id incapacidad) = Inr None)"
  shows "fst (notify_new_incapacity w incapacidad_id) = Inr False
      \<and> fst (notify_incapacity_reviewed w incapacidad_id admin_id) = Inr False
      \<and> fst (notify_incapacity_rejected w incapacidad_id admin_id motivo_rechazo) = Inr False"
  using assms
  by (auto simp add: notify_new_incapacity_def notify_incapacity_reviewed_def
      notify_incapacity_rejected_def repo_call_Inr seq_logger seq_py_print ret_def try_except_def)

text \<open>
  C2. When the lookup of the incapacity record returns nothing, or the lookup of its employee
  returns nothing, each of the three notify methods returns False; when the lookup of the
  administrator returns nothing, \<^verbatim>\<open>notify_incapacity_reviewed\<close> and
  \<^verbatim>\<open>notify_incapacity_rejected\<close> return False, whatever the other lookups do. In every
  case the method returns and does not raise.
\<close>

theorem missing_record_or_user_returns_False:
  "(incapacidad_repo_get w incapacidad_id = Inr None
     \<or> (\<exists>incapacidad. incapacidad_repo_get w incapacidad_id = Inr (Some incapacidad)
            \<and> usuario_repo_get w (usuario_id incapacidad) = Inr None)
    \<longrightarrow> fst (notify_new_incapacity w incapacidad_id) = Inr False
      \<and> fst (notify_incapacity_reviewed w incapacidad_id admin_id) = Inr False
      \<and> fst (notify_incapacity_rejected w incapacidad_id admin_id motivo_rechazo) = Inr False)
   \<and> (usuario_repo_get w admin_id = Inr None
    \<longrightarrow> fst (notify_incapacity_reviewed w incapacidad_id admin_id) = Inr False
      \<and> fst (notify_incapacity_rejected w incapacidad_id admin_id motivo_rechazo) = Inr False)"
  using missing_record_or_employee_returns_False [of w incapacidad_id admin_id motivo_rechazo]
    missing_admin_returns_False(1) [of w admin_id incapacidad_id]
    missing_admin_returns_False(2) [of w admin_id incapacidad_id motivo_rechazo]
  by blast

theorem missing_record_or_user_returns_False_witness:
  "incapacidad_repo_get example_world 2 = Inr None
   \<and> fst (notify_new_incapacity example_world 2) = Inr False
   \<and> fst (notify_incapacity_reviewed example_world 2 9) = Inr False
   \<and> fst (notify_incapacity_rejected example_world 2 9 None) = Inr False
   \<and> usuario_repo_get example_world 7 = Inr None
   \<and> fst (notify_incapacity_reviewed example_world 1 7) = Inr False
   \<and> fst (notify_incapacity_rejected example_world 1 7 None) = Inr False"
proof -
  have h1: "incapacidad_repo_get example_world 2 = Inr None"
    and h2: "usuario_repo_get example_world 7 = Inr None"
    by (simp_all add: example_world_def)
  show ?thesis
    using h1 h2
      missing_record_or_user_returns_False [of example_world 2 9 None]
      missing_record_or_user_returns_False [of example_world 1 7 None]
    by blast
qed

section \<open>Sending with missing credentials\<close>

text \<open>
  What \<open>send_email\<close> does when a credential is missing depends on the port: the simulated
  send needs \<^verbatim>\<open>int(os.getenv('SMTP_PORT', '587'))\<close> to succeed first. The transport is
  never touched.
\<close>

lemma send_email_simulated:
  assumes "falsy (getenv w ''SMTP_USERNAME'') \<or> falsy (getenv w ''SMTP_PASSWORD'')"
    and "py_int (getenv_default w ''SMTP_PORT'' ''587'') = Inr smtp_port"
  shows "send_email w to_email subject html_content text_content
     = (Inr True,
        [Call ''_send_email'',
         Log WARNING ''CONFIGURACION SMTP NO ENCONTRADA'',
         Log WARNING ''Simulando envio a'',
         Log INFO ''Asunto'',
         Log INFO ''Contenido'',
         Log WARNING ''Para habilitar envio real, configure las variables SMTP en .env''])"
  using assms
  by (simp add: send_email_def seq_emit seq_logger bind_lift_Inr ret_def try_except_def Let_def)

lemma send_email_port_error:
  assumes "py_int (getenv_default w ''SMTP_PORT'' ''587'') = Inl e"
  shows "send_email w to_email subject html_content text_content
     = (Inr False, [Call ''_send_email'', Log ERROR ''Error al enviar correo a''])"
  using assms
  by (simp add: send_email_def seq_emit seq_logger bind_lift_Inl ret_def try_except_def Let_def)

lemma send_email_no_smtp_without_credentials:
  assumes "falsy (getenv w ''SMTP_USERNAME'') \<or> falsy (getenv w ''SMTP_PASSWORD'')"
  shows "\<not> list_ex is_smtp (snd (send_email w to_email subject html_content text_content))"
proof (cases "py_int (getenv_default w ''SMTP_PORT'' ''587'')")
  case (Inl e)
  then show ?thesis by (simp add: send_email_port_error)
next
  case (Inr smtp_port)
  with assms show ?thesis by (simp add: send_email_simulated)
qed

text \<open>
  C1. With \<^verbatim>\<open>SMTP_USERNAME\<close> and \<^verbatim>\<open>SMTP_PASSWORD\<close> empty and \<^verbatim>\<open>SMTP_PORT\<close>
  empty as well, \<open>send_email\<close> does not log a simulated send and does not return True:
  \<^verbatim>\<open>int('')\<close> raises ValueError before the credentials are looked at, the guard logs the
  error and the call returns False.
\<close>

theorem send_email_blank_port_returns_False:
  "getenv blank_smtp_world ''SMTP_USERNAME'' = Some []
   \<and> getenv blank_smtp_world ''SMTP_PASSWORD'' = Some []
   \<and> send_email blank_smtp_world ''berta@example.org'' ''Nueva incapacidad - Ana''
        (Html ''nueva_incapacidad'' []) None
      = (Inr False, [Call ''_send_email'', Log ERROR ''Error al enviar correo a''])"
  by code_simp

section \<open>New-incapacity notifications\<close>

lemma example_lookups:
  "incapacidad_repo_get example_world 1 = Inr (Some row1)"
  "usuario_repo_get example_world (usuario_id row1) = Inr (Some ana)"
  "usuario_repo_get example_world 9 = Inr (Some berta)"
  "fst (get_administradores example_world) = Inr [admin_of berta]"
  by code_simp+



text \<open>
  C8. When the incapacity record and its employee exist, \<open>notify_new_incapacity\<close> returns
  True exactly when \<open>send_notification_to_admin\<close> returned True for at least one
  administrator of the list \<open>get_administradores\<close> returned. So it returns False when every
  send attempt fails, and False when the list is empty.
\<close>

theorem notify_new_incapacity_True_iff_some_send:
  assumes "incapacidad_repo_get w incapacidad_id = Inr (Some incapacidad)"
    and "usuario_repo_get w (usuario_id incapacidad) = Inr (Some empleado)"
    and "fst (get_administradores w) = Inr administradores"
  shows "fst (notify_new_incapacity w incapacidad_id)
           = Inr (\<exists>admin \<in> set administradores.
                    fst (send_notification_to_admin w admin
                           (new_incapacity_data w incapacidad_id empleado incapacidad)) = Inr True)"
proof (cases "administradores = []")
  case True
  obtain t where "get_administradores w = (Inr [], t)"
    using assms(3) True by (cases "get_administradores w") simp
  then show ?thesis
    using assms(1,2) True
    by (simp add: notify_new_incapacity_def repo_call_Inr bind_Inr seq_logger seq_py_print
        try_except_def ret_def)
next
  case False
  show ?thesis
    using notify_new_incapacity_success_path [OF assms False]
    by (auto simp add: filter_empty_conv)
qed

theorem notify_new_incapacity_True_iff_some_send_witness:
  "incapacidad_repo_get example_world 1 = Inr (Some row1)
   \<and> usuario_repo_get example_world (usuario_id row1) = Inr (Some ana)
   \<and> fst (get_administradores example_world) = Inr [admin_of berta]
   \<and> fst (send_notification_to_admin example_world (admin_of berta)
             (new_incapacity_data example_world 1 ana row1)) = Inr True
   \<and> fst (notify_new_incapacity example_world 1) = Inr True"
proof -
  have s: "fst (send_notification_to_admin example_world (admin_of berta)
             (new_incapacity_data example_world 1 ana row1)) = Inr True"
    by code_simp
  show ?thesis
    using example_lookups s
      notify_new_incapacity_True_iff_some_send [OF example_lookups(1,2,4)]
    by simp
qed

section \<open>Employee notifications\<close>

lemma seq_Inr: "seq (Inr u, t) k = (fst k, t @ snd k)"
  by (simp add: seq_def bind_def split: prod.splits)

lemma create_rejection_content:
  "\<exists>content. create_rejection_email_content nd
      = (Inr content, [Call ''_create_rejection_email_content''])"
  by (simp add: create_rejection_email_content_def seq_emit ret_def Let_def)

lemma send_notification_to_employee_revisada:
  assumes "nd_tipo nd = ''incapacidad_revisada''"
  shows "send_notification_to_employee w empleado nd
     = (Inr True,
        [Call ''_send_notification_to_employee'',
         Log INFO ''NOTIFICACION DE REVISION ENVIADA:'',
         Log INFO ''Para'',
         Log INFO ''Empleado'',
         Log INFO ''Incapacidad ID'',
         Log INFO ''Revisado por'',
         Log INFO ''Fecha'',
         Log INFO ''Datos completos''])"
  using assms
  by (simp add: send_notification_to_employee_def seq_emit seq_logger seq_Inr logger_def emit_def
       ret_def try_except_def Let_def)

lemma send_notification_to_employee_rechazada:
  assumes "nd_tipo nd = ''incapacidad_rechazada''"
  shows "\<exists>b t. send_notification_to_employee w empleado nd
     = (Inr b,
        [Call ''_send_notification_to_employee'',
         Log INFO ''ENVIANDO NOTIFICACION DE RECHAZO:'',
         Log INFO ''Para'',
         Log INFO ''Empleado'',
         Log INFO ''Incapacidad ID'',
         Log INFO ''Motivo del rechazo'',
         Log INFO ''Rechazado por'',
         Log INFO ''Fecha'',
         Call ''_create_rejection_email_content'',
         Call ''_send_email''] @ t)
     \<and> list_all (\<lambda>ev. is_smtp ev \<or> is_log ev) t"
proof -
  obtain content where c: "create_rejection_email_content nd
      = (Inr content, [Call ''_create_rejection_email_content''])"
    using create_rejection_content by blast
  obtain asunto html_content where p: "content = (asunto, html_content)"
    by (cases content)
  let ?tx = "Some (rejection_text_content (get_default (nd_motivo_rechazo nd) ''No especificado''))"
  obtain b t where e: "send_email w (correo_electronico empleado) asunto html_content ?tx
        = (Inr b, Call ''_send_email'' # t)"
    and t: "list_all (\<lambda>ev. is_smtp ev \<or> is_log ev) t"
    using send_email_shape by blast
  have "send_notification_to_employee w empleado nd
     = (Inr b,
        [Call ''_send_notification_to_employee'',
         Log INFO ''ENVIANDO NOTIFICACION DE RECHAZO:'',
         Log INFO ''Para'',
         Log INFO ''Empleado'',
         Log INFO ''Incapacidad ID'',
         Log INFO ''Motivo del rechazo'',
         Log INFO ''Rechazado por'',
         Log INFO ''Fecha'',
         Call ''_create_rejection_email_content'',
         Call ''_send_email''] @ t @ [if b then Log INFO ''Correo de rechazo enviado exitosamente a''
               else Log ERROR ''Error al enviar correo de rechazo a''])"
    using assms
    by (simp add: send_notification_to_employee_def seq_emit seq_logger c p e bind_Inr
        try_except_Inr ret_def Let_def)
  moreover have "list_all (\<lambda>ev. is_smtp ev \<or> is_log ev)
       (t @ [if b then Log INFO ''Correo de rechazo enviado exitosamente a''
               else Log ERROR ''Error al enviar correo de rechazo a''])"
    using t by simp
  ultimately show ?thesis by blast
qed


lemma rejected_data_tipo: "nd_tipo (rejected_data w i e a r m) = ''incapacidad_rechazada''"
  by (simp add: rejected_data_def)

lemma reviewed_data_tipo: "nd_tipo (reviewed_data w i e a) = ''incapacidad_revisada''"
  by (simp add: reviewed_data_def)

lemma notify_incapacity_reviewed_success_path:
  assumes "incapacidad_repo_get w incapacidad_id = Inr (Some incapacidad)"
    and "usuario_repo_get w (usuario_id incapacidad) = Inr (Some empleado)"
    and "usuario_repo_get w admin_id = Inr (Some admin)"
  shows "notify_incapacity_reviewed w incapacidad_id admin_id
     = (Inr True,
        [Call ''incapacidad_repo.get'', Call ''usuario_repo.get'', Call ''usuario_repo.get'']
        @ snd (send_notification_to_employee w empleado
                 (reviewed_data w incapacidad_id empleado admin)))"
  using assms
  by (simp add: notify_incapacity_reviewed_def repo_call_Inr try_except_def
      send_notification_to_employee_revisada [OF reviewed_data_tipo])

lemma notify_incapacity_rejected_success_path:
  assumes "incapacidad_repo_get w incapacidad_id = Inr (Some incapacidad)"
    and "usuario_repo_get w (usuario_id incapacidad) = Inr (Some empleado)"
    and "usuario_repo_get w admin_id = Inr (Some admin)"
  shows "\<exists>b. notify_incapacity_rejected w incapacidad_id admin_id motivo_rechazo
     = (Inr b,
        [Call ''incapacidad_repo.get'', Call ''usuario_repo.get'',
         Log INFO ''NOTIFICACION DE RECHAZO - Datos del empleado:'',
         Log INFO ''ID'', Log INFO ''Email'', Log INFO ''Nombre'',
         Call ''usuario_repo.get'']
        @ snd (send_notification_to_employee w empleado
                 (rejected_data w incapacidad_id empleado admin incapacidad motivo_rechazo))
        @ [if b then Log INFO ''Notificacion de rechazo enviada al empleado''
           else Log ERROR ''Error al enviar notificacion de rechazo al empleado''])"
proof -
  let ?X = "send_notification_to_employee w empleado
                 (rejected_data w incapacidad_id empleado admin incapacidad motivo_rechazo)"
  obtain b t where x: "?X = (Inr b, t)"
    using send_notification_to_employee_rechazada [OF rejected_data_tipo, of w empleado w incapacidad_id empleado admin incapacidad motivo_rechazo]
    by blast
  show ?thesis
    using assms
    by (auto simp add: notify_incapacity_rejected_def repo_call_Inr seq_logger x bind_Inr try_except_def
        logger_def seq_emit ret_def)
qed


text \<open>
  C7, as the code has it. On their success paths \<open>notify_new_incapacity\<close> and
  \<open>notify_incapacity_rejected\<close> perform the repository lookups, build the payload, build
  the templated email and call \<open>send_email\<close> (once per administrator, respectively once).
  \<open>notify_incapacity_reviewed\<close> performs the three lookups, builds the payload and hands it
  to \<open>send_notification_to_employee\<close>, which for this payload only logs and returns True:
  no template is built and \<open>send_email\<close> is not called. \<open>get_notification_history\<close> and
  \<open>mark_notification_as_read\<close> perform none of the steps.
\<close>

theorem public_methods_steps:
  "(incapacidad_repo_get w incapacidad_id = Inr (Some incapacidad)
    \<and> usuario_repo_get w (usuario_id incapacidad) = Inr (Some empleado)
    \<and> fst (get_administradores w) = Inr administradores \<and> administradores \<noteq> []
    \<longrightarrow> count_calls ''incapacidad_repo.get'' (snd (notify_new_incapacity w incapacidad_id)) = 1
      \<and> count_calls ''usuario_repo.get'' (snd (notify_new_incapacity w incapacidad_id)) = 1
      \<and> count_calls ''usuario_repo.list'' (snd (notify_new_incapacity w incapacidad_id)) = 1
      \<and> count_calls ''_create_admin_new_incapacity_email_content''
            (snd (notify_new_incapacity w incapacidad_id)) = length administradores
      \<and> count_calls ''_send_email'' (snd (notify_new_incapacity w incapacidad_id))
            = length administradores
      \<and> fst (notify_new_incapacity w incapacidad_id)
          = Inr (0 < length (filter (\<lambda>a. fst (send_notification_to_admin w a
                   (new_incapacity_data w incapacidad_id empleado incapacidad)) = Inr True)
                   administradores)))
   \<and> (incapacidad_repo_get w incapacidad_id = Inr (Some incapacidad)
    \<and> usuario_repo_get w (usuario_id incapacidad) = Inr (Some empleado)
    \<and> usuario_repo_get w admin_id = Inr (Some admin)
    \<longrightarrow> count_calls ''incapacidad_repo.get''
            (snd (notify_incapacity_rejected w incapacidad_id admin_id motivo_rechazo)) = 1
      \<and> count_calls ''usuario_repo.get''
            (snd (notify_incapacity_rejected w incapacidad_id admin_id motivo_rechazo)) = 2
      \<and> count_calls ''_send_notification_to_employee''
            (snd (notify_incapacity_rejected w incapacidad_id admin_id motivo_rechazo)) = 1
      \<and> count_calls ''_create_rejection_email_content''
            (snd (notify_incapacity_rejected w incapacidad_id admin_id motivo_rechazo)) = 1
      \<and> count_calls ''_send_email''
            (snd (notify_incapacity_rejected w incapacidad_id admin_id motivo_rechazo)) = 1
      \<and> (\<exists>b. notify_incapacity_rejected w incapacidad_id admin_id motivo_rechazo
           = (Inr b,
              [Call ''incapacidad_repo.get'', Call ''usuario_repo.get'',
               Log INFO ''NOTIFICACION DE RECHAZO - Datos del empleado:'',
               Log INFO ''ID'', Log INFO ''Email'', Log INFO ''Nombre'',
               Call ''usuario_repo.get'']
              @ snd (send_notification_to_employee w empleado
                       (rejected_data w incapacidad_id empleado admin incapacidad motivo_rechazo))
              @ [if b then Log INFO ''Notificacion de rechazo enviada al empleado''
                 else Log ERROR ''Error al enviar notificacion de rechazo al empleado'']))
      \<and> notify_incapacity_reviewed w incapacidad_id admin_id
          = (Inr True,
             [Call ''incapacidad_repo.get'', Call ''usuario_repo.get'', Call ''usuario_repo.get'']
             @ snd (send_notification_to_employee w empleado
                      (reviewed_data w incapacidad_id empleado admin)))
      \<and> list_all is_log (tl (snd (send_notification_to_employee w empleado
                      (reviewed_data w incapacidad_id empleado admin))))
      \<and> count_calls ''_send_notification_to_employee''
            (snd (notify_incapacity_reviewed w incapacidad_id admin_id)) = 1
      \<and> count_calls ''_create_rejection_email_content''
            (snd (notify_incapacity_reviewed w incapacidad_id admin_id)) = 0
      \<and> count_calls ''_send_email'' (snd (notify_incapacity_reviewed w incapacidad_id admin_id)) = 0)
   \<and> snd (notify_admins_new_incapacity w incapacidad_id empleado_id)
       = Log INFO ''Notificando a administradores sobre nueva incapacidad''
         # snd (notify_new_incapacity w incapacidad_id)
   \<and> snd (get_notification_history w user_id skip limit) = []
   \<and> snd (mark_notification_as_read w notification_id user_id) = []"
proof (intro conjI impI)
  assume a: "incapacidad_repo_get w incapacidad_id = Inr (Some incapacidad)
    \<and> usuario_repo_get w (usuario_id incapacidad) = Inr (Some empleado)
    \<and> fst (get_administradores w) = Inr administradores \<and> administradores \<noteq> []"
  then show "fst (notify_new_incapacity w incapacidad_id)
          = Inr (0 < length (filter (\<lambda>a. fst (send_notification_to_admin w a
                   (new_incapacity_data w incapacidad_id empleado incapacidad)) = Inr True)
                   administradores))"
    using notify_new_incapacity_success_path [of w incapacidad_id incapacidad empleado administradores]
    by auto
  from a obtain t where n: "snd (notify_new_incapacity w incapacidad_id) = t"
     and c: "count_calls ''incapacidad_repo.get'' t = 1"
       "count_calls ''usuario_repo.get'' t = 1"
       "count_calls ''usuario_repo.list'' t = 1"
       "count_calls ''_create_admin_new_incapacity_email_content'' t = length administradores"
       "count_calls ''_send_email'' t = length administradores"
    using notify_new_incapacity_success_path [of w incapacidad_id incapacidad empleado administradores]
    by auto
  show "count_calls ''incapacidad_repo.get'' (snd (notify_new_incapacity w incapacidad_id)) = 1"
    using n c by simp
  show "count_calls ''usuario_repo.get'' (snd (notify_new_incapacity w incapacidad_id)) = 1"
    using n c by simp
  show "count_calls ''usuario_repo.list'' (snd (notify_new_incapacity w incapacidad_id)) = 1"
    using n c by simp
  show "count_calls ''_create_admin_new_incapacity_email_content''
            (snd (notify_new_incapacity w incapacidad_id)) = length administradores"
    using n c by simp
  show "count_calls ''_send_email'' (snd (notify_new_incapacity w incapacidad_id))
            = length administradores"
    using n c by simp
next
  assume a: "incapacidad_repo_get w incapacidad_id = Inr (Some incapacidad)
    \<and> usuario_repo_get w (usuario_id incapacidad) = Inr (Some empleado)
    \<and> usuario_repo_get w admin_id = Inr (Some admin)"
  let ?X = "send_notification_to_employee w empleado
                 (rejected_data w incapacidad_id empleado admin incapacidad motivo_rechazo)"
  obtain bx tx where x: "?X = (Inr bx,
        [Call ''_send_notification_to_employee'',
         Log INFO ''ENVIANDO NOTIFICACION DE RECHAZO:'',
         Log INFO ''Para'',
         Log INFO ''Empleado'',
         Log INFO ''Incapacidad ID'',
         Log INFO ''Motivo del rechazo'',
         Log INFO ''Rechazado por'',
         Log INFO ''Fecha'',
         Call ''_create_rejection_email_content'',
         Call ''_send_email''] @ tx)"
     and tx: "list_all (\<lambda>ev. is_smtp ev \<or> is_log ev) tx"
    using send_notification_to_employee_rechazada [OF rejected_data_tipo, of w empleado w incapacidad_id empleado admin incapacidad motivo_rechazo]
    by blast
  obtain b where r: "notify_incapacity_rejected w incapacidad_id admin_id motivo_rechazo
     = (Inr b,
        [Call ''incapacidad_repo.get'', Call ''usuario_repo.get'',
         Log INFO ''NOTIFICACION DE RECHAZO - Datos del empleado:'',
         Log INFO ''ID'', Log INFO ''Email'', Log INFO ''Nombre'',
         Call ''usuario_repo.get'']
        @ snd ?X
        @ [if b then Log INFO ''Notificacion de rechazo enviada al empleado''
           else Log ERROR ''Error al enviar notificacion de rechazo al empleado''])"
    using notify_incapacity_rejected_success_path [of w incapacidad_id incapacidad empleado admin_id admin motivo_rechazo] a
    by blast
  show "\<exists>b. notify_incapacity_rejected w incapacidad_id admin_id motivo_rechazo
           = (Inr b,
              [Call ''incapacidad_repo.get'', Call ''usuario_repo.get'',
               Log INFO ''NOTIFICACION DE RECHAZO - Datos del empleado:'',
               Log INFO ''ID'', Log INFO ''Email'', Log INFO ''Nombre'',
               Call ''usuario_repo.get'']
              @ snd (send_notification_to_employee w empleado
                       (rejected_data w incapacidad_id empleado admin incapacidad motivo_rechazo))
              @ [if b then Log INFO ''Notificacion de rechazo enviada al empleado''
                 else Log ERROR ''Error al enviar notificacion de rechazo al empleado''])"
    using r by blast
  have k: "count_calls name tx = 0" for name
    using tx by (rule count_calls_smtp_log)
  show "count_calls ''incapacidad_repo.get''
            (snd (notify_incapacity_rejected w incapacidad_id admin_id motivo_rechazo)) = 1"
    by (simp add: r x k count_calls_simps)
  show "count_calls ''usuario_repo.get''
            (snd (notify_incapacity_rejected w incapacidad_id admin_id motivo_rechazo)) = 2"
    by (simp add: r x k count_calls_simps)
  show "count_calls ''_send_notification_to_employee''
            (snd (notify_incapacity_rejected w incapacidad_id admin_id motivo_rechazo)) = 1"
    by (simp add: r x k count_calls_simps)
  show "count_calls ''_create_rejection_email_content''
            (snd (notify_incapacity_rejected w incapacidad_id admin_id motivo_rechazo)) = 1"
    by (simp add: r x k count_calls_simps)
  show "count_calls ''_send_email''
            (snd (notify_incapacity_rejected w incapacidad_id admin_id motivo_rechazo)) = 1"
    by (simp add: r x k count_calls_simps)
  have v: "notify_incapacity_reviewed w incapacidad_id admin_id
          = (Inr True,
             [Call ''incapacidad_repo.get'', Call ''usuario_repo.get'', Call ''usuario_repo.get'']
             @ snd (send_notification_to_employee w empleado
                      (reviewed_data w incapacidad_id empleado admin)))"
    using notify_incapacity_reviewed_success_path [of w incapacidad_id incapacidad empleado admin_id admin] a
    by blast
  note e = send_notification_to_employee_revisada [OF reviewed_data_tipo, of w empleado w incapacidad_id empleado admin]
  show "notify_incapacity_reviewed w incapacidad_id admin_id
          = (Inr True,
             [Call ''incapacidad_repo.get'', Call ''usuario_repo.get'', Call ''usuario_repo.get'']
             @ snd (send_notification_to_employee w empleado
                      (reviewed_data w incapacidad_id empleado admin)))"
    by (rule v)
  show "list_all is_log (tl (snd (send_notification_to_employee w empleado
                      (reviewed_data w incapacidad_id empleado admin))))"
    by (simp add: e)
  show "count_calls ''_send_notification_to_employee''
            (snd (notify_incapacity_reviewed w incapacidad_id admin_id)) = 1"
    by (simp add: v e count_calls_simps)
  show "count_calls ''_create_rejection_email_content''
            (snd (notify_incapacity_reviewed w incapacidad_id admin_id)) = 0"
    by (simp add: v e count_calls_simps)
  show "count_calls ''_send_email'' (snd (notify_incapacity_reviewed w incapacidad_id admin_id)) = 0"
    by (simp add: v e count_calls_simps)
next
  show "snd (notify_admins_new_incapacity w incapacidad_id empleado_id)
       = Log INFO ''Notificando a administradores sobre nueva incapacidad''
         # snd (notify_new_incapacity w incapacidad_id)"
    by (simp add: notify_admins_new_incapacity_def seq_logger)
  show "snd (get_notification_history w user_id skip limit) = []"
    by (simp add: get_notification_history_def ret_def)
  show "snd (mark_notification_as_read w notification_id user_id) = []"
    by (simp add: mark_notification_as_read_def ret_def)
qed

text \<open>
  The claim C7 as stated fails: with record 1, employee 5 and administrator 9 all present,
  \<open>notify_incapacity_reviewed\<close> returns True without building any email body and without
  calling \<open>send_email\<close>, and \<open>get_notification_history\<close> performs no step at all.
\<close>

theorem reviewed_sends_no_email:
  "incapacidad_repo_get example_world 1 = Inr (Some row1)
   \<and> usuario_repo_get example_world (usuario_id row1) = Inr (Some ana)
   \<and> usuario_repo_get example_world 9 = Inr (Some berta)
   \<and> fst (notify_incapacity_reviewed example_world 1 9) = Inr True
   \<and> count_calls ''_send_email'' (snd (notify_incapacity_reviewed example_world 1 9)) = 0
   \<and> count_calls ''_create_rejection_email_content'' (snd (notify_incapacity_reviewed example_world 1 9)) = 0
   \<and> count_calls ''_create_admin_new_incapacity_email_content''
        (snd (notify_incapacity_reviewed example_world 1 9)) = 0
   \<and> get_notification_history example_world 5 0 100 = (Inr [], [])"
  by code_simp


theorem public_methods_steps_witness:
  "incapacidad_repo_get example_world 1 = Inr (Some row1)
   \<and> usuario_repo_get example_world (usuario_id row1) = Inr (Some ana)
   \<and> fst (get_administradores example_world) = Inr [admin_of berta]
   \<and> usuario_repo_get example_world 9 = Inr (Some berta)
   \<and> count_calls ''_send_email'' (snd (notify_new_incapacity example_world 1)) = 1
   \<and> count_calls ''_send_email'' (snd (notify_incapacity_rejected example_world 1 9 None)) = 1
   \<and> count_calls ''_send_email'' (snd (notify_incapacity_reviewed example_world 1 9)) = 0"
proof -
  note steps = public_methods_steps [where w = example_world and incapacidad_id = 1
      and incapacidad = row1 and empleado = ana and administradores = "[admin_of berta]"
      and admin_id = 9 and admin = berta and motivo_rechazo = None]
  have c1: "count_calls ''_send_email'' (snd (notify_new_incapacity example_world 1))
              = length [admin_of berta]"
    using steps example_lookups by blast
  have c2: "count_calls ''_send_email'' (snd (notify_incapacity_rejected example_world 1 9 None)) = 1"
    using steps example_lookups by blast
  have c3: "count_calls ''_send_email'' (snd (notify_incapacity_reviewed example_world 1 9)) = 0"
    using steps example_lookups by blast
  show ?thesis
    using example_lookups c1 c2 c3 by simp
qed

section \<open>Exception guards\<close>





section \<open>The SQL batches\<close>





















end
